theory Spec2Isabelle
  imports Complex_Main
begin

section \<open>Market entry analyzer (market_analyzer.py): data model\<close>

text \<open>
  The embedding follows class \<open>MarketEntryAnalyzer\<close>.

  \<^item> Numbers. A Python float is the rational it holds (\<open>rat\<close>). The risk total is
    computed in double arithmetic: \<open>fl\<close> rounds a rational to the nearest double, a
    weight literal of the source (\<open>0.30\<close>) is the double nearest to it, and every
    product and every partial sum is rounded. The growth rate of a forecast is
    computed with numpy floats on values that may leave the finite range (a
    division); it is an \<open>npfloat\<close>, a rational, an infinity or NaN, and its three
    operations are taken on the exact values, without rounding.
  \<^item> Dictionaries keyed by data (country, risk type, metric) are association lists in
    insertion order, read with \<open>map_of\<close>; Python keeps dictionary keys distinct.
    A dictionary read only through fixed literal keys (\<open>risk_data['score']\<close>,
    \<open>country_data['GDP']\<close>) is a record, as every such dictionary the source builds
    holds these keys; the one key the code reads through \<open>.get(key, default)\<close>
    (\<open>Market_Score\<close>) is an optional field. A record is never empty, so the test
    \<open>if not country_data\<close> is the test for a missing country.
  \<^item> Exceptions are values of \<open>py_exn\<close>; a \<open>try\<close> block is a function into
    \<open>py_exn + 'a\<close> and its \<open>except Exception\<close> handler is the case on \<open>Inl\<close>.
  \<^item> The analyzer object is passed explicitly and returned by every method; the only
    thing a method changes is the list of records its logger has emitted.
\<close>

datatype py_exn =
    KeyError string
  | IndexError
  | LibraryError string

datatype log_entry =
    RiskScoreError string py_exn
  | ForecastError string py_exn
  | NoDataFound string

record risk_data =
  score :: rat
  factors :: "string list"

record country_snapshot =
  GDP :: rat
  Population :: rat
  Consumer_Spending :: rat
  Economic_Growth :: rat
  Market_Score :: "rat option"
  Strengths :: "string list"
  Weaknesses :: "string list"

record analyzer =
  historical_data :: "(string \<times> (string \<times> rat list) list) list"
  current_data :: "(string \<times> country_snapshot) list"
  risk_factors :: "(string \<times> (string \<times> risk_data) list) list"
  emitted :: "log_entry list"

text \<open>\<open>self.logger.error(...)\<close>: the record is appended to what the logger has emitted.\<close>

definition logger_error :: "log_entry \<Rightarrow> analyzer \<Rightarrow> analyzer" where
  "logger_error e a = a\<lparr>emitted := emitted a @ [e]\<rparr>"

section \<open>Double arithmetic\<close>

text \<open>
  A double holds a 53-bit integer times a power of two. \<open>fl x\<close> is the double nearest
  to \<open>x\<close>, ties going to the even integer (IEEE 754 round-to-nearest-even, Python's
  only rounding mode): with \<open>2 ^ k \<le> \<bar>x\<bar> < 2 ^ (k + 1)\<close> the spacing of the doubles
  around \<open>x\<close> is \<open>2 ^ (k - 52)\<close>, and never less than \<open>2 ^ - 1074\<close>, the spacing of the
  subnormal numbers. Magnitudes of \<open>2 ^ 1024\<close> and more, which a double does not hold,
  are outside the model.
\<close>

definition pow2 :: "int \<Rightarrow> rat" where
  "pow2 e = (if 0 \<le> e then 2 ^ nat e else 1 / 2 ^ nat (- e))"

text \<open>The binary exponent of a positive rational: \<open>2 ^ ilog2 m \<le> m < 2 ^ (ilog2 m + 1)\<close>.\<close>

function ilog2_down :: "rat \<Rightarrow> int \<Rightarrow> int" where
  "ilog2_down m e = (if 2 \<le> m then ilog2_down (m / 2) (e + 1) else e)"
  by pat_completeness auto
termination
proof (relation "measure (\<lambda>(m, e). nat \<lfloor>m\<rfloor>)")
  show "wf (measure (\<lambda>(m :: rat, e :: int). nat \<lfloor>m\<rfloor>))" by simp
next
  fix m :: rat and e :: int
  assume "2 \<le> m"
  then have n: "2 \<le> \<lfloor>m\<rfloor>" by (simp add: le_floor_iff)
  then have "(2 :: rat) \<le> of_int \<lfloor>m\<rfloor>" by simp
  moreover have "m < of_int \<lfloor>m\<rfloor> + 1" by linarith
  ultimately have "m / 2 < of_int \<lfloor>m\<rfloor>" by linarith
  then have lt: "\<lfloor>m / 2\<rfloor> < \<lfloor>m\<rfloor>" by (simp add: floor_less_iff)
  have pos: "0 < \<lfloor>m\<rfloor>" using n by linarith
  show "((m / 2, e + 1), (m, e)) \<in> measure (\<lambda>(m, e). nat \<lfloor>m\<rfloor>)"
    by (simp only: in_measure split_conv zless_nat_conj lt pos simp_thms)
qed

function ilog2_up :: "rat \<Rightarrow> int \<Rightarrow> int" where
  "ilog2_up m e = (if 0 < m \<and> m < 1 then ilog2_up (m * 2) (e - 1) else e)"
  by pat_completeness auto
termination
proof (relation "measure (\<lambda>(m, e). nat \<lfloor>1 / m\<rfloor>)")
  show "wf (measure (\<lambda>(m :: rat, e :: int). nat \<lfloor>1 / m\<rfloor>))" by simp
next
  fix m :: rat and e :: int
  assume a: "0 < m \<and> m < 1"
  define y where "y = 1 / m"
  have "1 \<le> y" using a by (simp add: y_def)
  then have n: "1 \<le> \<lfloor>y\<rfloor>" by (simp add: le_floor_iff)
  then have "(1 :: rat) \<le> of_int \<lfloor>y\<rfloor>" by simp
  moreover have "y < of_int \<lfloor>y\<rfloor> + 1" by linarith
  ultimately have "y / 2 < of_int \<lfloor>y\<rfloor>" by linarith
  then have "\<lfloor>y / 2\<rfloor> < \<lfloor>y\<rfloor>" by (simp add: floor_less_iff)
  moreover have "1 / (m * 2) = y / 2" by (simp add: y_def)
  ultimately have lt: "\<lfloor>1 / (m * 2)\<rfloor> < \<lfloor>1 / m\<rfloor>" by (simp only: y_def)
  have "0 < \<lfloor>y\<rfloor>" using n by linarith
  then have pos: "0 < \<lfloor>1 / m\<rfloor>" by (simp only: y_def)
  show "((m * 2, e - 1), (m, e)) \<in> measure (\<lambda>(m, e). nat \<lfloor>1 / m\<rfloor>)"
    by (simp only: in_measure split_conv zless_nat_conj lt pos simp_thms)
qed

declare ilog2_down.simps [simp del] ilog2_up.simps [simp del]

definition ilog2 :: "rat \<Rightarrow> int" where
  "ilog2 m = (if 1 \<le> m then ilog2_down m 0 else ilog2_up m 0)"

definition round_half_even :: "rat \<Rightarrow> int" where
  "round_half_even q =
     (let f = \<lfloor>q\<rfloor>; d = q - of_int f
      in if d < 1 / 2 then f
         else if 1 / 2 < d then f + 1
         else if even f then f else f + 1)"

definition fl :: "rat \<Rightarrow> rat" where
  "fl x =
     (if x = 0 then 0
      else
        (let e = max (ilog2 \<bar>x\<bar> - 52) (- 1074)
         in of_int (round_half_even (x / pow2 e)) * pow2 e))"

section \<open>Risk scoring (calculate_risk_score)\<close>

record risk_assessment =
  total_score :: rat
  risk_rating :: string
  detailed_scores :: "(string \<times> risk_data) list"

text \<open>The weights as the source writes them, and the doubles these literals denote.\<close>

definition weight_literals :: "(string \<times> rat) list" where
  "weight_literals =
     [(''Political_Risk'', 0.25),
      (''Economic_Risk'', 0.30),
      (''Operational_Risk'', 0.20),
      (''Technical_Risk'', 0.25)]"

definition weights :: "(string \<times> rat) list" where
  "weights = map (\<lambda>(risk_type, literal). (risk_type, fl literal)) weight_literals"

text \<open>
  \<open>sum(weights[risk_type] * risk_data['score'] for risk_type, risk_data in
  country_risks.items())\<close>: Python's \<open>sum\<close> starts from 0 and adds the items from left
  to right, in the order of the dictionary; \<open>weights[risk_type]\<close> raises KeyError for
  a risk type that has no weight. The product is a float product: the score, an int
  or a float, is taken as a double, and the product is rounded. Every addition is
  rounded; the first, to the int 0, changes nothing. This is the plain float
  addition of CPython up to version 3.11; from 3.12 on \<open>sum\<close> also carries a
  correction term for the rounding of its additions, which is not modelled.
\<close>

fun weighted_sum :: "rat \<Rightarrow> (string \<times> risk_data) list \<Rightarrow> py_exn + rat" where
  "weighted_sum acc [] = Inr acc"
| "weighted_sum acc ((risk_type, rd) # rest) =
     (case map_of weights risk_type of
        None \<Rightarrow> Inl (KeyError risk_type)
      | Some w \<Rightarrow> weighted_sum (fl (acc + fl (w * fl (score rd)))) rest)"

text \<open>The \<open>if\<close>/\<open>elif\<close> chain that converts the total to a rating.\<close>

definition rating_of :: "rat \<Rightarrow> string" where
  "rating_of total_score' =
     (if total_score' \<le> 15 then ''Very Low Risk''
      else if total_score' \<le> 25 then ''Low Risk''
      else if total_score' \<le> 35 then ''Moderate Risk''
      else if total_score' \<le> 45 then ''High Risk''
      else ''Very High Risk'')"

text \<open>
  The body of the \<open>try\<close> block. \<open>if not country_risks\<close> holds for a missing country
  (\<open>.get\<close> gave None) and for an empty profile.
\<close>

definition calculate_risk_score_try :: "analyzer \<Rightarrow> string \<Rightarrow> py_exn + risk_assessment option" where
  "calculate_risk_score_try a country =
     (case map_of (risk_factors a) country of
        None \<Rightarrow> Inr None
      | Some country_risks \<Rightarrow>
          if country_risks = [] then Inr None
          else
            (case weighted_sum 0 country_risks of
               Inl e \<Rightarrow> Inl e
             | Inr total_score' \<Rightarrow>
                 Inr (Some \<lparr>total_score = total_score',
                            risk_rating = rating_of total_score',
                            detailed_scores =
                              map (\<lambda>(risk_type, rd).
                                     (risk_type, \<lparr>score = score rd, factors = factors rd\<rparr>))
                                  country_risks\<rparr>)))"

definition calculate_risk_score :: "analyzer \<Rightarrow> string \<Rightarrow> risk_assessment option \<times> analyzer" where
  "calculate_risk_score a country =
     (case calculate_risk_score_try a country of
        Inl e \<Rightarrow> (None, logger_error (RiskScoreError country e) a)
      | Inr r \<Rightarrow> (r, a))"

section \<open>Forecasting (forecast_metrics)\<close>

subsection \<open>numpy float values\<close>

text \<open>
  \<open>data.iloc[-1]\<close> and \<open>forecast_values.iloc[-1]\<close> are numpy float64 scalars. Their
  arithmetic never raises: a division by zero gives an infinity or NaN (with a
  warning), and NaN compares false with everything. The operations below are the
  IEEE rules on the values of \<open>npfloat\<close>; a finite quotient by an infinity is zero.
\<close>

datatype npfloat = Fin rat | PInf | NInf | NaN

fun np_div :: "npfloat \<Rightarrow> npfloat \<Rightarrow> npfloat" where
  "np_div NaN _ = NaN"
| "np_div _ NaN = NaN"
| "np_div (Fin x) (Fin y) =
     (if y = 0 then (if x = 0 then NaN else if 0 < x then PInf else NInf)
      else Fin (x / y))"
| "np_div (Fin x) _ = Fin 0"
| "np_div PInf (Fin y) = (if y < 0 then NInf else PInf)"
| "np_div NInf (Fin y) = (if y < 0 then PInf else NInf)"
| "np_div _ _ = NaN"

fun np_sub :: "npfloat \<Rightarrow> npfloat \<Rightarrow> npfloat" where
  "np_sub NaN _ = NaN"
| "np_sub _ NaN = NaN"
| "np_sub (Fin x) (Fin y) = Fin (x - y)"
| "np_sub (Fin x) PInf = NInf"
| "np_sub (Fin x) NInf = PInf"
| "np_sub PInf PInf = NaN"
| "np_sub PInf _ = PInf"
| "np_sub NInf NInf = NaN"
| "np_sub NInf _ = NInf"

fun np_mul :: "npfloat \<Rightarrow> npfloat \<Rightarrow> npfloat" where
  "np_mul NaN _ = NaN"
| "np_mul _ NaN = NaN"
| "np_mul (Fin x) (Fin y) = Fin (x * y)"
| "np_mul (Fin x) PInf = (if x = 0 then NaN else if 0 < x then PInf else NInf)"
| "np_mul (Fin x) NInf = (if x = 0 then NaN else if 0 < x then NInf else PInf)"
| "np_mul PInf (Fin y) = (if y = 0 then NaN else if 0 < y then PInf else NInf)"
| "np_mul NInf (Fin y) = (if y = 0 then NaN else if 0 < y then NInf else PInf)"
| "np_mul PInf PInf = PInf"
| "np_mul PInf NInf = NInf"
| "np_mul NInf PInf = NInf"
| "np_mul NInf NInf = PInf"

fun np_gt :: "npfloat \<Rightarrow> npfloat \<Rightarrow> bool" where
  "np_gt NaN _ = False"
| "np_gt _ NaN = False"
| "np_gt (Fin x) (Fin y) = (y < x)"
| "np_gt (Fin x) PInf = False"
| "np_gt (Fin x) NInf = True"
| "np_gt PInf PInf = False"
| "np_gt PInf _ = True"
| "np_gt NInf _ = False"

subsection \<open>The forecaster\<close>

record forecast_result =
  current_value :: rat
  forecasted_value :: npfloat
  growth_rate :: npfloat
  trend :: string

text \<open>
  The trend fit is the statsmodels library, not code of this repository: it is a
  parameter of the model. \<open>fit historical_values years_ahead\<close> stands for lines
  330 to 335: building the yearly series, \<open>ExponentialSmoothing(data, trend='add',
  seasonal=None)\<close>, \<open>model.fit()\<close> and \<open>fitted_model.forecast(years_ahead)\<close>. It gives
  the projected values, or the exception one of these calls raised.
\<close>

type_synonym trend_fit = "rat list \<Rightarrow> int \<Rightarrow> py_exn + npfloat list"

definition metrics_to_forecast :: "string list" where
  "metrics_to_forecast = [''GDP'', ''Population'', ''Consumer_Spending'', ''Economic_Growth'']"

text \<open>\<open>forecasts[metric] = ...\<close>: an existing key keeps its place, a new key goes last.\<close>

fun dict_set :: "('k \<times> 'v) list \<Rightarrow> 'k \<Rightarrow> 'v \<Rightarrow> ('k \<times> 'v) list" where
  "dict_set [] k v = [(k, v)]"
| "dict_set ((k', v') # d) k v =
     (if k' = k then (k, v) # d else (k', v') # dict_set d k v)"

text \<open>
  One pass of the loop body for one metric. \<open>iloc[-1]\<close> raises IndexError on an empty
  series; the last historical value is read before the last forecast value.
\<close>

definition forecast_metric :: "trend_fit \<Rightarrow> rat list \<Rightarrow> int \<Rightarrow> py_exn + forecast_result" where
  "forecast_metric fit historical_values years_ahead =
     (case fit historical_values years_ahead of
        Inl e \<Rightarrow> Inl e
      | Inr forecast_values \<Rightarrow>
          if historical_values = [] then Inl IndexError
          else if forecast_values = [] then Inl IndexError
          else
            (let current = last historical_values;
                 future_value = last forecast_values;
                 growth = np_mul (np_sub (np_div future_value (Fin current)) (Fin 1)) (Fin 100)
             in Inr \<lparr>current_value = current,
                     forecasted_value = future_value,
                     growth_rate = growth,
                     trend = (if np_gt growth (Fin 0) then ''Increasing'' else ''Decreasing'')\<rparr>))"

text \<open>
  The \<open>for metric in metrics_to_forecast\<close> loop, with the dictionary \<open>forecasts\<close> as
  accumulator. \<open>self.historical_data[country][metric]\<close> raises KeyError when the
  country has no series for the metric. Any exception leaves the loop.
\<close>

fun forecast_loop ::
  "trend_fit \<Rightarrow> (string \<times> rat list) list \<Rightarrow> int \<Rightarrow> string list \<Rightarrow>
   (string \<times> forecast_result) list \<Rightarrow> py_exn + (string \<times> forecast_result) list" where
  "forecast_loop fit series years_ahead [] forecasts = Inr forecasts"
| "forecast_loop fit series years_ahead (metric # metrics) forecasts =
     (case map_of series metric of
        None \<Rightarrow> Inl (KeyError metric)
      | Some historical_values \<Rightarrow>
          (case forecast_metric fit historical_values years_ahead of
             Inl e \<Rightarrow> Inl e
           | Inr r \<Rightarrow>
               forecast_loop fit series years_ahead metrics (dict_set forecasts metric r)))"

definition forecast_metrics_try ::
  "trend_fit \<Rightarrow> analyzer \<Rightarrow> string \<Rightarrow> int \<Rightarrow> py_exn + (string \<times> forecast_result) list option" where
  "forecast_metrics_try fit a country years_ahead =
     (case map_of (historical_data a) country of
        None \<Rightarrow> Inr None
      | Some series \<Rightarrow>
          (case forecast_loop fit series years_ahead metrics_to_forecast [] of
             Inl e \<Rightarrow> Inl e
           | Inr forecasts \<Rightarrow> Inr (Some forecasts)))"

definition forecast_metrics ::
  "trend_fit \<Rightarrow> analyzer \<Rightarrow> string \<Rightarrow> int \<Rightarrow> (string \<times> forecast_result) list option \<times> analyzer" where
  "forecast_metrics fit a country years_ahead =
     (case forecast_metrics_try fit a country years_ahead of
        Inl e \<Rightarrow> (None, logger_error (ForecastError country e) a)
      | Inr r \<Rightarrow> (r, a))"

section \<open>Country analysis (analyze_country)\<close>

text \<open>
  An f-string with one fixed-point field, \<open>f"${x:.2f} Trillion USD"\<close>, is kept as its
  parts: the text before the field, the number of decimals, the value and the text
  after it.
\<close>

datatype formatted = Formatted string nat rat string

record country_analysis =
  country :: string
  market_score :: rat
  status :: string
  current_metrics :: "(string \<times> formatted) list"
  strengths :: "string list"
  weaknesses :: "string list"
  forecasts :: "(string \<times> forecast_result) list option"
  risk_analysis :: "risk_assessment option"

definition status_of :: "rat \<Rightarrow> string" where
  "status_of m =
     (if m \<ge> 88 then ''Highly Suitable''
      else if m \<ge> 82 then ''Very Suitable''
      else if m \<ge> 75 then ''Suitable''
      else ''Moderately Suitable'')"

text \<open>
  \<open>analyze_country\<close>. With the snapshot a record, nothing in the \<open>try\<close> block can
  raise (the two methods it calls catch their own exceptions), so its handler has no
  branch here. The forecaster is called with its default horizon of 5 years.
\<close>

definition analyze_country :: "trend_fit \<Rightarrow> analyzer \<Rightarrow> string \<Rightarrow> country_analysis option \<times> analyzer" where
  "analyze_country fit a c =
     (case map_of (current_data a) c of
        None \<Rightarrow> (None, logger_error (NoDataFound c) a)
      | Some country_data \<Rightarrow>
          (let score' = (case Market_Score country_data of None \<Rightarrow> 0 | Some m \<Rightarrow> m);
               metrics =
                 [(''Population'', Formatted [] 1 (Population country_data) '' Million''),
                  (''GDP'', Formatted ''$'' 2 (GDP country_data) '' Trillion USD''),
                  (''Consumer_Spending'',
                     Formatted ''$'' 2 (Consumer_Spending country_data) '' Trillion USD''),
                  (''Economic_Growth'', Formatted [] 1 (Economic_Growth country_data) ''%'')];
               (fc, a1) = forecast_metrics fit a c 5;
               (risk, a2) = calculate_risk_score a1 c
           in (Some \<lparr>country = c,
                      market_score = score',
                      status = status_of score',
                      current_metrics = metrics,
                      strengths = Strengths country_data,
                      weaknesses = Weaknesses country_data,
                      forecasts = fc,
                      risk_analysis = risk\<rparr>,
               a2)))"

section \<open>The data set of the repository\<close>

text \<open>
  The literals of \<open>prepare_historical_data\<close>, \<open>prepare_market_data\<close> and
  \<open>prepare_risk_data\<close>, and the analyzer \<open>__init__\<close> builds from them.
\<close>

definition seed_historical_data :: "(string \<times> (string \<times> rat list) list) list" where
  "seed_historical_data =
    [(''Japan'',
       [(''GDP'', [5.16, 4.85, 4.39, 4.92, 4.87, 4.95, 5.08, 4.97, 4.94, 4.23]),
        (''Population'', [127.3, 127.1, 126.9, 126.7, 126.5, 126.3, 126.1, 125.8, 125.5, 125.2]),
        (''Consumer_Spending'', [2.98, 2.89, 2.82, 2.85, 2.88, 2.91, 2.94, 2.75, 2.82, 2.88]),
        (''Economic_Growth'', [1.6, 0.4, 1.2, 0.5, 2.2, 0.3, 0.7, - 4.5, 1.6, 1.0])]),
     (''Brazil'',
       [(''GDP'', [2.47, 2.46, 1.80, 1.80, 2.06, 1.92, 1.88, 1.45, 1.61, 1.84]),
        (''Population'', [201.0, 202.8, 204.5, 206.2, 207.8, 209.3, 210.8, 212.2, 213.6, 214.3]),
        (''Consumer_Spending'', [1.52, 1.48, 1.12, 1.15, 1.28, 1.24, 1.22, 0.98, 1.08, 1.15]),
        (''Economic_Growth'', [3.0, 0.5, - 3.5, - 3.3, 1.3, 1.8, 1.2, - 3.9, 4.6, 2.9])]),
     (''France'',
       [(''GDP'', [2.81, 2.85, 2.43, 2.47, 2.59, 2.78, 2.73, 2.63, 2.96, 2.78]),
        (''Population'', [65.8, 66.2, 66.5, 66.7, 66.9, 67.2, 67.3, 67.4, 67.6, 67.8]),
        (''Consumer_Spending'', [1.62, 1.64, 1.42, 1.44, 1.52, 1.64, 1.61, 1.48, 1.72, 1.65]),
        (''Economic_Growth'', [0.6, 1.0, 1.1, 1.1, 2.3, 1.9, 1.8, - 7.9, 6.8, 2.5])]),
     (''Canada'',
       [(''GDP'', [1.84, 1.80, 1.56, 1.53, 1.65, 1.72, 1.74, 1.64, 1.99, 2.00]),
        (''Population'', [35.2, 35.5, 35.8, 36.2, 36.5, 37.0, 37.6, 38.0, 38.2, 38.5]),
        (''Consumer_Spending'', [1.05, 1.02, 0.92, 0.91, 0.98, 1.02, 1.04, 0.96, 1.15, 1.18]),
        (''Economic_Growth'', [2.3, 2.9, 0.7, 1.1, 3.0, 2.8, 1.9, - 5.2, 4.5, 3.4])])]"

definition seed_current_data :: "(string \<times> country_snapshot) list" where
  "seed_current_data =
    [(''Japan'',
       \<lparr>GDP = 4.23, Population = 125.2, Consumer_Spending = 2.88, Economic_Growth = 1.0,
        Market_Score = Some 88,
        Strengths =
           [''Advanced Infrastructure and Technology'',
            ''Strong Financial System'',
            ''High Innovation Capacity''],
        Weaknesses =
           [''Slow Economic Growth'',
            ''Complex Business Regulations'',
            ''Limited Market Expansion Potential'']\<rparr>),
     (''Brazil'',
       \<lparr>GDP = 1.84, Population = 214.3, Consumer_Spending = 1.15, Economic_Growth = 2.9,
        Market_Score = Some 82,
        Strengths =
           [''Large Consumer Market'',
            ''Growing Middle Class'',
            ''Rich Natural Resources''],
        Weaknesses =
           [''Complex Regulatory Environment'',
            ''Infrastructure Gaps'',
            ''Bureaucratic Challenges'']\<rparr>),
     (''France'',
       \<lparr>GDP = 2.78, Population = 67.8, Consumer_Spending = 1.65, Economic_Growth = 2.5,
        Market_Score = Some 84,
        Strengths =
           [''Strong Infrastructure Network'',
            ''Skilled Workforce'',
            ''Strategic EU Market Position''],
        Weaknesses =
           [''High Labor Costs'',
            ''Complex Labor Laws'',
            ''Moderate Economic Growth'']\<rparr>),
     (''Canada'',
       \<lparr>GDP = 2.00, Population = 38.5, Consumer_Spending = 1.18, Economic_Growth = 3.4,
        Market_Score = Some 83,
        Strengths =
           [''Strong Legal Framework'',
            ''Stable Financial System'',
            ''High-Quality Infrastructure''],
        Weaknesses =
           [''Small Domestic Market'',
            ''High Business Operating Costs'',
            ''Weather-Related Challenges'']\<rparr>)]"

definition seed_risk_factors :: "(string \<times> (string \<times> risk_data) list) list" where
  "seed_risk_factors =
    [(''Japan'',
       [(''Political_Risk'',
          \<lparr>score = 15,
           factors =
             [''Stable political environment'',
              ''Strong regulatory framework'',
              ''Occasional policy shifts affecting business'']\<rparr>),
        (''Economic_Risk'',
          \<lparr>score = 25,
           factors =
             [''Deflation concerns'',
              ''High public debt'',
              ''Aging population impact'']\<rparr>),
        (''Operational_Risk'',
          \<lparr>score = 20,
           factors =
             [''Natural disaster vulnerability'',
              ''High operating costs'',
              ''Complex business culture'']\<rparr>),
        (''Technical_Risk'',
          \<lparr>score = 15,
           factors =
             [''Advanced digital infrastructure'',
              ''High cybersecurity standards'',
              ''Strong technological innovation'',
              ''Skilled IT workforce'']\<rparr>)]),
     (''Brazil'',
       [(''Political_Risk'',
          \<lparr>score = 35,
           factors =
             [''Political instability'',
              ''Frequent regulatory changes'',
              ''Corruption concerns'']\<rparr>),
        (''Economic_Risk'',
          \<lparr>score = 30,
           factors =
             [''Currency volatility'',
              ''Inflation risk'',
              ''Economic policy uncertainty'']\<rparr>),
        (''Operational_Risk'',
          \<lparr>score = 40,
           factors =
             [''Infrastructure limitations'',
              ''Complex tax system'',
              ''Security concerns'']\<rparr>),
        (''Technical_Risk'',
          \<lparr>score = 35,
           factors =
             [''Digital infrastructure gaps'',
              ''Cybersecurity vulnerabilities'',
              ''Limited tech talent pool'',
              ''Uneven technological adoption'']\<rparr>)]),
     (''France'',
       [(''Political_Risk'',
          \<lparr>score = 20,
           factors =
             [''Labor union influence'',
              ''EU regulatory compliance'',
              ''Social movement impact'']\<rparr>),
        (''Economic_Risk'',
          \<lparr>score = 25,
           factors =
             [''High tax burden'',
              ''EU economic dependencies'',
              ''Labor market rigidity'']\<rparr>),
        (''Operational_Risk'',
          \<lparr>score = 15,
           factors =
             [''Strike frequency'',
              ''Administrative complexity'',
              ''High labor costs'']\<rparr>),
        (''Technical_Risk'',
          \<lparr>score = 20,
           factors =
             [''Good digital infrastructure'',
              ''Moderate cybersecurity framework'',
              ''Growing tech innovation'',
              ''Competitive IT sector'']\<rparr>)]),
     (''Canada'',
       [(''Political_Risk'',
          \<lparr>score = 10,
           factors =
             [''Stable political system'',
              ''Strong property rights'',
              ''Transparent regulations'']\<rparr>),
        (''Economic_Risk'',
          \<lparr>score = 20,
           factors =
             [''US economic dependency'',
              ''Housing market volatility'',
              ''Resource price sensitivity'']\<rparr>),
        (''Operational_Risk'',
          \<lparr>score = 15,
           factors =
             [''High labor costs'',
              ''Inter-provincial trade barriers'',
              ''Weather-related disruptions'']\<rparr>),
        (''Technical_Risk'',
          \<lparr>score = 18,
           factors =
             [''Strong digital infrastructure'',
              ''Advanced cybersecurity measures'',
              ''Growing tech ecosystem'',
              ''High tech adoption rate'']\<rparr>)])]"

definition seed_analyzer :: analyzer where
  "seed_analyzer =
     \<lparr>historical_data = seed_historical_data,
      current_data = seed_current_data,
      risk_factors = seed_risk_factors,
      emitted = []\<rparr>"

section \<open>A trend fit to run the forecaster with\<close>

text \<open>
  Modelled from the spec: the trend fit itself (statsmodels' \<open>ExponentialSmoothing\<close>
  with \<open>trend='add'\<close>, \<open>seasonal=None\<close>) is missing from the sources. The spec
  describes it as additive-trend exponential smoothing with a level and a trend
  component, each updated recursively from every observation, whose forecast
  extrapolates the last level and trend linearly, and which fails on fewer than two
  points. The smoothing coefficients, which the library estimates, are arguments
  here. The start state is the first observation and the first difference.
\<close>

definition holt_step :: "rat \<Rightarrow> rat \<Rightarrow> rat \<times> rat \<Rightarrow> rat \<Rightarrow> rat \<times> rat" where
  "holt_step alpha beta s y =
     (let level' = alpha * y + (1 - alpha) * (fst s + snd s);
          slope' = beta * (level' - fst s) + (1 - beta) * snd s
      in (level', slope'))"

definition holt_fit :: "rat \<Rightarrow> rat \<Rightarrow> trend_fit" where
  "holt_fit alpha beta ys years_ahead =
     (if length ys < 2 then Inl (LibraryError ''series too short to fit a trend'')
      else
        (let s = foldl (holt_step alpha beta) (ys ! 0, ys ! 1 - ys ! 0) ys
         in Inr (map (\<lambda>h. Fin (fst s + of_nat h * snd s)) [1 ..< Suc (nat years_ahead)])))"

section \<open>Data sets the theorems are run on\<close>

text \<open>The data set with the historical series and the risk profiles removed.\<close>
definition snapshots_only :: analyzer where
  "snapshots_only = seed_analyzer\<lparr>historical_data := [], risk_factors := []\<rparr>"

text \<open>A data set whose only snapshot, Canada's, has no market score.\<close>

definition canada_unscored :: analyzer where
  "canada_unscored =
     seed_analyzer\<lparr>current_data :=
       [(''Canada'',
         \<lparr>GDP = 2.00, Population = 38.5, Consumer_Spending = 1.18, Economic_Growth = 3.4,
          Market_Score = None,
          Strengths = [''Strong Legal Framework''],
          Weaknesses = [''Small Domestic Market'']\<rparr>)]\<rparr>"


text \<open>
  Three data sets that hold Japan's series only: one with the growth series cut down
  to its last observation, one with the GDP series cut down to its last observation,
  one with the GDP series empty.
\<close>

definition short_growth_analyzer :: analyzer where
  "short_growth_analyzer =
     seed_analyzer\<lparr>historical_data :=
       [(''Japan'',
         [(''GDP'', [5.16, 4.85, 4.39, 4.92, 4.87, 4.95, 5.08, 4.97, 4.94, 4.23]),
          (''Population'', [127.3, 127.1, 126.9, 126.7, 126.5, 126.3, 126.1, 125.8, 125.5, 125.2]),
          (''Consumer_Spending'', [2.98, 2.89, 2.82, 2.85, 2.88, 2.91, 2.94, 2.75, 2.82, 2.88]),
          (''Economic_Growth'', [1.0])])]\<rparr>"

definition short_gdp_analyzer :: analyzer where
  "short_gdp_analyzer =
     seed_analyzer\<lparr>historical_data :=
       [(''Japan'',
         [(''GDP'', [4.23]),
          (''Population'', [127.3, 127.1, 126.9, 126.7, 126.5, 126.3, 126.1, 125.8, 125.5, 125.2]),
          (''Consumer_Spending'', [2.98, 2.89, 2.82, 2.85, 2.88, 2.91, 2.94, 2.75, 2.82, 2.88]),
          (''Economic_Growth'', [1.6, 0.4, 1.2, 0.5, 2.2, 0.3, 0.7, - 4.5, 1.6, 1.0])])]\<rparr>"

definition empty_gdp_analyzer :: analyzer where
  "empty_gdp_analyzer =
     seed_analyzer\<lparr>historical_data :=
       [(''Japan'',
         [(''GDP'', []),
          (''Population'', [127.3, 127.1, 126.9, 126.7, 126.5, 126.3, 126.1, 125.8, 125.5, 125.2]),
          (''Consumer_Spending'', [2.98, 2.89, 2.82, 2.85, 2.88, 2.91, 2.94, 2.75, 2.82, 2.88]),
          (''Economic_Growth'', [1.6, 0.4, 1.2, 0.5, 2.2, 0.3, 0.7, - 4.5, 1.6, 1.0])])]\<rparr>"


section \<open>Lemmas on double arithmetic\<close>

lemma floor_rat_numeral_divide:
  "\<lfloor>numeral a / numeral b :: rat\<rfloor> = numeral a div numeral b"
  using floor_divide_of_int_eq [of "numeral a" "numeral b", where ?'a = rat] by simp

lemma floor_rat_neg_numeral_divide:
  "\<lfloor>- (numeral a / numeral b) :: rat\<rfloor> = - numeral a div numeral b"
  using floor_divide_of_int_eq [of "- numeral a" "numeral b", where ?'a = rat] by simp

lemmas fl_eval =
  fl_def ilog2_def ilog2_down.simps ilog2_up.simps pow2_def round_half_even_def Let_def
  floor_rat_numeral_divide floor_rat_neg_numeral_divide










lemma weights_values:
  "weights =
     [(''Political_Risk'', 1 / 4),
      (''Economic_Risk'', 5404319552844595 / 18014398509481984),
      (''Operational_Risk'', 3602879701896397 / 18014398509481984),
      (''Technical_Risk'', 1 / 4)]"
  by (simp add: weights_def weight_literals_def fl_eval)

section \<open>Lemmas on the risk scorer\<close>








lemma calculate_risk_score_fst:
  "fst (calculate_risk_score a c) =
     (case calculate_risk_score_try a c of Inl e \<Rightarrow> None | Inr r \<Rightarrow> r)"
  by (simp add: calculate_risk_score_def split: sum.splits)

lemmas run_risk_score =
  calculate_risk_score_fst calculate_risk_score_try_def weights_values fl_eval rating_of_def


lemma calculate_risk_score_rating:
  "fst (calculate_risk_score a c) = Some r \<Longrightarrow> risk_rating r = rating_of (total_score r)"
  by (auto simp: calculate_risk_score_fst calculate_risk_score_try_def
      split: option.splits sum.splits if_splits)

lemma calculate_risk_score_missing:
  "map_of (risk_factors a) c = None \<Longrightarrow> fst (calculate_risk_score a c) = None"
  by (simp add: calculate_risk_score_fst calculate_risk_score_try_def)



section \<open>What the methods leave unchanged\<close>

lemma logger_error_data [simp]:
  "historical_data (logger_error e a) = historical_data a"
  "current_data (logger_error e a) = current_data a"
  "risk_factors (logger_error e a) = risk_factors a"
  by (simp_all add: logger_error_def)

lemma calculate_risk_score_frame:
  "historical_data (snd (calculate_risk_score a c)) = historical_data a"
  "current_data (snd (calculate_risk_score a c)) = current_data a"
  "risk_factors (snd (calculate_risk_score a c)) = risk_factors a"
  by (simp_all add: calculate_risk_score_def split: sum.splits)

lemma forecast_metrics_frame:
  "historical_data (snd (forecast_metrics fit a c n)) = historical_data a"
  "current_data (snd (forecast_metrics fit a c n)) = current_data a"
  "risk_factors (snd (forecast_metrics fit a c n)) = risk_factors a"
  by (simp_all add: forecast_metrics_def split: sum.splits)

lemma calculate_risk_score_try_cong:
  "risk_factors a = risk_factors b \<Longrightarrow> calculate_risk_score_try a c = calculate_risk_score_try b c"
  by (simp add: calculate_risk_score_try_def)

lemma calculate_risk_score_cong:
  "risk_factors a = risk_factors b \<Longrightarrow> fst (calculate_risk_score a c) = fst (calculate_risk_score b c)"
  by (simp add: calculate_risk_score_fst calculate_risk_score_try_cong [of a b])

lemma forecast_metrics_fst:
  "fst (forecast_metrics fit a c n) =
     (case forecast_metrics_try fit a c n of Inl e \<Rightarrow> None | Inr r \<Rightarrow> r)"
  by (simp add: forecast_metrics_def split: sum.splits)

section \<open>Lemmas on the forecaster\<close>

lemma map_of_dict_set: "map_of (dict_set d k v) = (map_of d)(k \<mapsto> v)"
  by (induction d) (auto simp: fun_eq_iff)

lemma keys_dict_set:
  "map fst (dict_set d k v) = (if k \<in> fst ` set d then map fst d else map fst d @ [k])"
proof (induction d)
  case Nil
  then show ?case by simp
next
  case (Cons x d)
  obtain k' v' where x: "x = (k', v')" by (cases x)
  show ?case
  proof (cases "k' = k")
    case True
    with x show ?thesis by simp
  next
    case False
    with x Cons.IH show ?thesis by (cases "k \<in> fst ` set d") auto
  qed
qed


lemma forecast_metric_fit_fails:
  "isl (fit hv n) \<Longrightarrow> isl (forecast_metric fit hv n)"
  by (auto simp: forecast_metric_def split: sum.splits)

lemma forecast_metric_empty:
  "isl (forecast_metric fit [] n)"
  by (auto simp: forecast_metric_def split: sum.splits)

lemma forecast_loop_Inr:
  assumes "forecast_loop fit series n ms acc = Inr fs"
  shows "(\<forall>m \<in> set ms. \<exists>hv r. map_of series m = Some hv \<and> forecast_metric fit hv n = Inr r \<and>
                            map_of fs m = Some r) \<and>
         (\<forall>m. m \<notin> set ms \<longrightarrow> map_of fs m = map_of acc m)"
  using assms
proof (induction ms arbitrary: acc)
  case Nil
  then show ?case by simp
next
  case (Cons m0 ms)
  from Cons.prems obtain hv0 r0 where s0: "map_of series m0 = Some hv0"
    and f0: "forecast_metric fit hv0 n = Inr r0"
    and rest: "forecast_loop fit series n ms (dict_set acc m0 r0) = Inr fs"
    by (auto split: option.splits sum.splits)
  note IH = Cons.IH [OF rest]
  have m0: "map_of fs m0 = Some r0"
  proof (cases "m0 \<in> set ms")
    case True
    with IH s0 f0 show ?thesis by fastforce
  next
    case False
    with IH show ?thesis by (simp add: map_of_dict_set)
  qed
  show ?case
  proof (intro conjI ballI allI impI)
    fix m assume "m \<in> set (m0 # ms)"
    then show "\<exists>hv r. map_of series m = Some hv \<and> forecast_metric fit hv n = Inr r \<and> map_of fs m = Some r"
      using IH s0 f0 m0 by auto
  next
    fix m assume "m \<notin> set (m0 # ms)"
    then show "map_of fs m = map_of acc m"
      using IH by (simp add: map_of_dict_set)
  qed
qed

lemma forecast_loop_keys:
  assumes "forecast_loop fit series n ms acc = Inr fs"
    and "distinct ms" and "set ms \<inter> fst ` set acc = {}"
  shows "map fst fs = map fst acc @ ms"
  using assms
proof (induction ms arbitrary: acc)
  case Nil
  then show ?case by simp
next
  case (Cons m0 ms)
  from Cons.prems(1) obtain hv0 r0 where
    rest: "forecast_loop fit series n ms (dict_set acc m0 r0) = Inr fs"
    by (auto split: option.splits sum.splits)
  from Cons.prems(3) have notin: "m0 \<notin> fst ` set acc" by auto
  then have k: "map fst (dict_set acc m0 r0) = map fst acc @ [m0]"
    by (simp add: keys_dict_set)
  have "set ms \<inter> fst ` set (dict_set acc m0 r0) = {}"
  proof -
    have "fst ` set (dict_set acc m0 r0) = set (map fst (dict_set acc m0 r0))" by simp
    also have "\<dots> = insert m0 (fst ` set acc)" unfolding k by simp
    finally show ?thesis using Cons.prems(2,3) by auto
  qed
  from Cons.IH [OF rest _ this] Cons.prems(2) k show ?case by simp
qed

lemma forecast_loop_aborts:
  assumes "m \<in> set ms" and "map_of series m = Some hv" and "isl (forecast_metric fit hv n)"
  shows "isl (forecast_loop fit series n ms acc)"
proof (rule ccontr)
  assume "\<not> isl (forecast_loop fit series n ms acc)"
  then obtain fs where "forecast_loop fit series n ms acc = Inr fs"
    by (cases "forecast_loop fit series n ms acc") auto
  from forecast_loop_Inr [OF this] assms(1,2)
  obtain r where "forecast_metric fit hv n = Inr r" by fastforce
  with assms(3) show False by simp
qed

lemma forecast_metrics_Some:
  assumes "fst (forecast_metrics fit a c n) = Some fs"
  shows "\<exists>series. map_of (historical_data a) c = Some series \<and>
            forecast_loop fit series n metrics_to_forecast [] = Inr fs"
  using assms
  by (auto simp: forecast_metrics_fst forecast_metrics_try_def split: sum.splits option.splits)

lemma forecast_metrics_aborts:
  assumes "map_of (historical_data a) c = Some series"
    and "isl (forecast_loop fit series n metrics_to_forecast [])"
  shows "forecast_metrics fit a c n =
           (None, logger_error (ForecastError c (projl (forecast_loop fit series n metrics_to_forecast []))) a)"
  using assms
  by (auto simp: forecast_metrics_def forecast_metrics_try_def split: sum.splits)

lemma forecast_metrics_missing:
  "map_of (historical_data a) c = None \<Longrightarrow> fst (forecast_metrics fit a c n) = None"
  by (simp add: forecast_metrics_fst forecast_metrics_try_def)

lemma holt_fit_Inr:
  "2 \<le> length ys \<Longrightarrow>
   holt_fit alpha beta ys n =
     Inr (map (\<lambda>h. Fin (fst (foldl (holt_step alpha beta) (ys ! 0, ys ! 1 - ys ! 0) ys) +
                         of_nat h * snd (foldl (holt_step alpha beta) (ys ! 0, ys ! 1 - ys ! 0) ys)))
              [1 ..< Suc (nat n)])"
  by (simp add: holt_fit_def Let_def)

lemma holt_fit_short:
  "length ys < 2 \<Longrightarrow>
   holt_fit alpha beta ys n = Inl (LibraryError ''series too short to fit a trend'')"
  by (simp add: holt_fit_def)

lemmas run_forecast =
  forecast_metrics_def forecast_metrics_try_def forecast_metric_def holt_fit_Inr holt_fit_short
  upt_conv_Cons holt_step_def Let_def

lemma seed_japan_forecasts:
  "fst (forecast_metrics (holt_fit 0.5 0.5) seed_analyzer ''Japan'' 5) =
   Some
    [(''GDP'',
      \<lparr>current_value = 4.23,
       forecasted_value = Fin (398673497 / 104857600),
       growth_rate = Fin (- (1121853775 / 110886912)),
       trend = ''Decreasing''\<rparr>),
     (''Population'',
      \<lparr>current_value = 125.2, forecasted_value = Fin (649133687 / 5242880),
       growth_rate = Fin (- (181872225 / 164102144)),
       trend = ''Decreasing''\<rparr>),
     (''Consumer_Spending'',
      \<lparr>current_value = 2.88, forecasted_value = Fin (59626243 / 20971520),
       growth_rate = Fin (- (96466825 / 75497472)),
       trend = ''Decreasing''\<rparr>),
     (''Economic_Growth'',
      \<lparr>current_value = 1.0, forecasted_value = Fin (931649 / 524288),
       growth_rate = Fin (10184025 / 131072), trend = ''Increasing''\<rparr>)]"
  by (simp add: run_forecast metrics_to_forecast_def seed_analyzer_def seed_historical_data_def)


section \<open>Lemmas on the country analysis\<close>

lemma analyze_country_found:
  assumes "map_of (current_data a) c = Some snap"
  shows "fst (analyze_country fit a c) =
     Some \<lparr>country = c,
           market_score = (case Market_Score snap of None \<Rightarrow> 0 | Some m \<Rightarrow> m),
           status = status_of (case Market_Score snap of None \<Rightarrow> 0 | Some m \<Rightarrow> m),
           current_metrics =
             [(''Population'', Formatted [] 1 (Population snap) '' Million''),
              (''GDP'', Formatted ''$'' 2 (GDP snap) '' Trillion USD''),
              (''Consumer_Spending'', Formatted ''$'' 2 (Consumer_Spending snap) '' Trillion USD''),
              (''Economic_Growth'', Formatted [] 1 (Economic_Growth snap) ''%'')],
           strengths = Strengths snap,
           weaknesses = Weaknesses snap,
           forecasts = fst (forecast_metrics fit a c 5),
           risk_analysis = fst (calculate_risk_score a c)\<rparr>"
proof -
  have "fst (calculate_risk_score (snd (forecast_metrics fit a c 5)) c) = fst (calculate_risk_score a c)"
    by (rule calculate_risk_score_cong) (rule forecast_metrics_frame)
  with assms show ?thesis
    by (simp add: analyze_country_def Let_def split_beta)
qed

lemma analyze_country_missing:
  "map_of (current_data a) c = None \<Longrightarrow> fst (analyze_country fit a c) = None"
  by (simp add: analyze_country_def)

lemma analyze_country_status:
  assumes "map_of (current_data a) c = Some snap" and "Market_Score snap = Some m"
  shows "\<exists>r. fst (analyze_country fit a c) = Some r \<and> market_score r = m \<and> status r = status_of m"
  using assms by (simp add: analyze_country_found)

lemma seed_canada_snapshot:
  "\<exists>snap. map_of (current_data seed_analyzer) ''Canada'' = Some snap \<and> Market_Score snap = Some 83"
  by (simp add: seed_analyzer_def seed_current_data_def)

lemma seed_germany:
  "map_of (risk_factors seed_analyzer) ''Germany'' = None"
  "map_of (historical_data seed_analyzer) ''Germany'' = None"
  "map_of (current_data seed_analyzer) ''Germany'' = None"
  by (simp_all add: seed_analyzer_def seed_risk_factors_def seed_historical_data_def
      seed_current_data_def)

section \<open>The claims\<close>




text \<open>
  Claim C2. The rating of a risk assessment is \<open>rating_of\<close> of its total score, and
  \<open>rating_of\<close> picks the first bucket whose inclusive upper bound holds the total:
  up to 15 "Very Low Risk", above 15 up to 25 "Low Risk", above 25 up to 35
  "Moderate Risk", above 35 up to 45 "High Risk", above 45 "Very High Risk".
\<close>

theorem risk_rating_buckets:
  "(fst (calculate_risk_score a c) = Some r \<longrightarrow> risk_rating r = rating_of (total_score r)) \<and>
   (t \<le> 15 \<longrightarrow> rating_of t = ''Very Low Risk'') \<and>
   (15 < t \<and> t \<le> 25 \<longrightarrow> rating_of t = ''Low Risk'') \<and>
   (25 < t \<and> t \<le> 35 \<longrightarrow> rating_of t = ''Moderate Risk'') \<and>
   (35 < t \<and> t \<le> 45 \<longrightarrow> rating_of t = ''High Risk'') \<and>
   (45 < t \<longrightarrow> rating_of t = ''Very High Risk'')"
proof (intro conjI impI)
  assume "fst (calculate_risk_score a c) = Some r"
  then show "risk_rating r = rating_of (total_score r)" by (rule calculate_risk_score_rating)
qed (simp_all add: rating_of_def)

text \<open>
  C2 at Brazil's profile (total 34.5) and at the bucket boundaries: exactly 15 is
  "Very Low Risk" and exactly 45 is "High Risk".
\<close>

theorem risk_rating_buckets_witness:
  "(\<exists>r. fst (calculate_risk_score seed_analyzer ''Brazil'') = Some r \<and>
        total_score r = 34.5 \<and> risk_rating r = ''Moderate Risk'') \<and>
   rating_of 15 = ''Very Low Risk'' \<and>
   rating_of 15.0001 = ''Low Risk'' \<and>
   rating_of 25.0001 = ''Moderate Risk'' \<and>
   rating_of 45 = ''High Risk'' \<and>
   rating_of 45.0001 = ''Very High Risk''"
proof -
  define r where "r = the (fst (calculate_risk_score seed_analyzer ''Brazil''))"
  have r: "fst (calculate_risk_score seed_analyzer ''Brazil'') = Some r"
    unfolding r_def
    by (simp add: run_risk_score seed_analyzer_def seed_risk_factors_def)
  have t: "total_score r = 34.5"
    unfolding r_def
    by (simp add: run_risk_score seed_analyzer_def seed_risk_factors_def)
  have "risk_rating r = rating_of (total_score r)"
    using risk_rating_buckets [of seed_analyzer "''Brazil''" r "34.5"] r by blast
  moreover have "rating_of 34.5 = ''Moderate Risk''"
    using risk_rating_buckets [of seed_analyzer "''Brazil''" r "34.5"] by simp
  ultimately have b: "risk_rating r = ''Moderate Risk''" using t by simp
  have "rating_of 15 = ''Very Low Risk''"
    using risk_rating_buckets [of seed_analyzer "''Brazil''" r "15"] by simp
  moreover have "rating_of 15.0001 = ''Low Risk''"
    using risk_rating_buckets [of seed_analyzer "''Brazil''" r "15.0001"] by simp
  moreover have "rating_of 25.0001 = ''Moderate Risk''"
    using risk_rating_buckets [of seed_analyzer "''Brazil''" r "25.0001"] by simp
  moreover have "rating_of 45 = ''High Risk''"
    using risk_rating_buckets [of seed_analyzer "''Brazil''" r "45"] by simp
  moreover have "rating_of 45.0001 = ''Very High Risk''"
    using risk_rating_buckets [of seed_analyzer "''Brazil''" r "45.0001"] by simp
  ultimately show ?thesis using r t b by blast
qed



text \<open>
  Claim C4. The status of an analysis is \<open>status_of\<close> of the market score, and
  \<open>status_of\<close> picks the first bucket whose inclusive lower bound the score reaches:
  from 88 "Highly Suitable", from 82 below 88 "Very Suitable", from 75 below 82
  "Suitable", below 75 "Moderately Suitable". Canada's market score of 83 gives
  "Very Suitable", whatever the trend fit.
\<close>

theorem status_buckets:
  "(map_of (current_data a) c = Some snap \<and> Market_Score snap = Some m \<longrightarrow>
      (\<exists>r. fst (analyze_country fit a c) = Some r \<and> market_score r = m \<and> status r = status_of m)) \<and>
   (88 \<le> m \<longrightarrow> status_of m = ''Highly Suitable'') \<and>
   (82 \<le> m \<and> m < 88 \<longrightarrow> status_of m = ''Very Suitable'') \<and>
   (75 \<le> m \<and> m < 82 \<longrightarrow> status_of m = ''Suitable'') \<and>
   (m < 75 \<longrightarrow> status_of m = ''Moderately Suitable'') \<and>
   (\<exists>r. fst (analyze_country fit seed_analyzer ''Canada'') = Some r \<and>
        market_score r = 83 \<and> status r = ''Very Suitable'')"
proof (intro conjI impI)
  assume "map_of (current_data a) c = Some snap \<and> Market_Score snap = Some m"
  then show "\<exists>r. fst (analyze_country fit a c) = Some r \<and> market_score r = m \<and> status r = status_of m"
    using analyze_country_status by blast
next
  obtain snap' where s: "map_of (current_data seed_analyzer) ''Canada'' = Some snap'"
    and m: "Market_Score snap' = Some 83"
    using seed_canada_snapshot by blast
  from analyze_country_status [OF s m, of fit]
  show "\<exists>r. fst (analyze_country fit seed_analyzer ''Canada'') = Some r \<and>
        market_score r = 83 \<and> status r = ''Very Suitable''"
    by (simp add: status_of_def)
qed (simp_all add: status_of_def)

text \<open>
  C4 at Canada's snapshot and at the bucket boundaries 88, 87.99, 75 and 74.99.
\<close>

theorem status_buckets_witness:
  "(\<exists>snap r. map_of (current_data seed_analyzer) ''Canada'' = Some snap \<and>
        Market_Score snap = Some 83 \<and>
        fst (analyze_country (holt_fit 0.5 0.5) seed_analyzer ''Canada'') = Some r \<and>
        market_score r = 83 \<and> status r = status_of 83) \<and>
   status_of 88 = ''Highly Suitable'' \<and>
   status_of 87.99 = ''Very Suitable'' \<and>
   status_of 75 = ''Suitable'' \<and>
   status_of 74.99 = ''Moderately Suitable''"
proof -
  obtain snap where s: "map_of (current_data seed_analyzer) ''Canada'' = Some snap"
    and m: "Market_Score snap = Some 83"
    using seed_canada_snapshot by blast
  note b = status_buckets [of seed_analyzer "''Canada''" snap _ "holt_fit 0.5 0.5"]
  from b [of 83] s m
  obtain r where "fst (analyze_country (holt_fit 0.5 0.5) seed_analyzer ''Canada'') = Some r"
    and "market_score r = 83" and "status r = status_of 83"
    by blast
  moreover have "status_of 88 = ''Highly Suitable''" using b [of 88] by simp
  moreover have "status_of 87.99 = ''Very Suitable''" using b [of "87.99"] by simp
  moreover have "status_of 75 = ''Suitable''" using b [of 75] by simp
  moreover have "status_of 74.99 = ''Moderately Suitable''" using b [of "74.99"] by simp
  ultimately show ?thesis using s m by blast
qed

text \<open>
  Claim C5. For a country that is absent from the risk profiles, from the historical
  series and from the snapshots, the risk scorer, the forecaster and the country
  analysis return None, not a record; so they do for "Germany" on the data set.
\<close>

theorem unknown_country_not_found:
  "(map_of (risk_factors a) c = None \<longrightarrow> fst (calculate_risk_score a c) = None) \<and>
   (map_of (historical_data a) c = None \<longrightarrow> fst (forecast_metrics fit a c n) = None) \<and>
   (map_of (current_data a) c = None \<longrightarrow> fst (analyze_country fit a c) = None) \<and>
   fst (calculate_risk_score seed_analyzer ''Germany'') = None \<and>
   fst (forecast_metrics fit seed_analyzer ''Germany'' n) = None \<and>
   fst (analyze_country fit seed_analyzer ''Germany'') = None"
  using seed_germany
  by (simp add: calculate_risk_score_missing forecast_metrics_missing analyze_country_missing)

text \<open>
  C5 at "Germany", which the data set does not hold.
\<close>

theorem unknown_country_not_found_witness:
  "map_of (risk_factors seed_analyzer) ''Germany'' = None \<and>
   map_of (historical_data seed_analyzer) ''Germany'' = None \<and>
   map_of (current_data seed_analyzer) ''Germany'' = None \<and>
   fst (calculate_risk_score seed_analyzer ''Germany'') = None \<and>
   fst (forecast_metrics (holt_fit 0.5 0.5) seed_analyzer ''Germany'' 5) = None \<and>
   fst (analyze_country (holt_fit 0.5 0.5) seed_analyzer ''Germany'') = None"
  using unknown_country_not_found [of seed_analyzer "''Germany''" "holt_fit 0.5 0.5" 5] seed_germany
  by blast

text \<open>
  Claim C6. The country analysis returns None exactly when the country has no
  snapshot. When it has one, the analysis returns a record with the country, the
  market score, the status, the formatted current metrics, the strengths and the
  weaknesses of the snapshot; its \<open>forecasts\<close> and \<open>risk_analysis\<close> fields are what
  the forecaster and the risk scorer returned, None included.
\<close>

theorem sub_failures_leave_the_record:
  "(fst (analyze_country fit a c) = None \<longleftrightarrow> map_of (current_data a) c = None) \<and>
   (map_of (current_data a) c = Some snap \<longrightarrow>
      (\<exists>r. fst (analyze_country fit a c) = Some r \<and>
           country r = c \<and>
           market_score r = (case Market_Score snap of None \<Rightarrow> 0 | Some m \<Rightarrow> m) \<and>
           status r = status_of (market_score r) \<and>
           current_metrics r =
             [(''Population'', Formatted [] 1 (Population snap) '' Million''),
              (''GDP'', Formatted ''$'' 2 (GDP snap) '' Trillion USD''),
              (''Consumer_Spending'', Formatted ''$'' 2 (Consumer_Spending snap) '' Trillion USD''),
              (''Economic_Growth'', Formatted [] 1 (Economic_Growth snap) ''%'')] \<and>
           strengths r = Strengths snap \<and>
           weaknesses r = Weaknesses snap \<and>
           forecasts r = fst (forecast_metrics fit a c 5) \<and>
           risk_analysis r = fst (calculate_risk_score a c)))"
proof (intro conjI impI)
  show "fst (analyze_country fit a c) = None \<longleftrightarrow> map_of (current_data a) c = None"
  proof (cases "map_of (current_data a) c")
    case None
    then show ?thesis by (simp add: analyze_country_missing)
  next
    case (Some s)
    then show ?thesis by (simp add: analyze_country_found)
  qed
next
  assume "map_of (current_data a) c = Some snap"
  then show "\<exists>r. fst (analyze_country fit a c) = Some r \<and>
           country r = c \<and>
           market_score r = (case Market_Score snap of None \<Rightarrow> 0 | Some m \<Rightarrow> m) \<and>
           status r = status_of (market_score r) \<and>
           current_metrics r =
             [(''Population'', Formatted [] 1 (Population snap) '' Million''),
              (''GDP'', Formatted ''$'' 2 (GDP snap) '' Trillion USD''),
              (''Consumer_Spending'', Formatted ''$'' 2 (Consumer_Spending snap) '' Trillion USD''),
              (''Economic_Growth'', Formatted [] 1 (Economic_Growth snap) ''%'')] \<and>
           strengths r = Strengths snap \<and>
           weaknesses r = Weaknesses snap \<and>
           forecasts r = fst (forecast_metrics fit a c 5) \<and>
           risk_analysis r = fst (calculate_risk_score a c)"
    by (simp add: analyze_country_found)
qed

text \<open>
  C6 at France on a data set without historical series and risk profiles: both
  sub-results are None and the record is returned with every other field.
\<close>

theorem sub_failures_leave_the_record_witness:
  "\<exists>snap r.
     map_of (current_data snapshots_only) ''France'' = Some snap \<and>
     fst (forecast_metrics (holt_fit 0.5 0.5) snapshots_only ''France'' 5) = None \<and>
     fst (calculate_risk_score snapshots_only ''France'') = None \<and>
     fst (analyze_country (holt_fit 0.5 0.5) snapshots_only ''France'') = Some r \<and>
     country r = ''France'' \<and> market_score r = 84 \<and> status r = ''Very Suitable'' \<and>
     current_metrics r =
       [(''Population'', Formatted [] 1 67.8 '' Million''),
        (''GDP'', Formatted ''$'' 2 2.78 '' Trillion USD''),
        (''Consumer_Spending'', Formatted ''$'' 2 1.65 '' Trillion USD''),
        (''Economic_Growth'', Formatted [] 1 2.5 ''%'')] \<and>
     strengths r = [''Strong Infrastructure Network'', ''Skilled Workforce'',
                    ''Strategic EU Market Position''] \<and>
     weaknesses r = [''High Labor Costs'', ''Complex Labor Laws'', ''Moderate Economic Growth''] \<and>
     forecasts r = None \<and> risk_analysis r = None"
proof -
  define snap where "snap = the (map_of (current_data snapshots_only) ''France'')"
  have s: "map_of (current_data snapshots_only) ''France'' = Some snap"
    unfolding snap_def by (simp add: snapshots_only_def seed_analyzer_def seed_current_data_def)
  have f: "fst (forecast_metrics (holt_fit 0.5 0.5) snapshots_only ''France'' 5) = None"
    by (simp add: forecast_metrics_missing snapshots_only_def)
  have k: "fst (calculate_risk_score snapshots_only ''France'') = None"
    by (simp add: calculate_risk_score_missing snapshots_only_def)
  have v: "Market_Score snap = Some 84" "Population snap = 67.8" "GDP snap = 2.78"
    "Consumer_Spending snap = 1.65" "Economic_Growth snap = 2.5"
    "Strengths snap = [''Strong Infrastructure Network'', ''Skilled Workforce'',
                    ''Strategic EU Market Position'']"
    "Weaknesses snap = [''High Labor Costs'', ''Complex Labor Laws'', ''Moderate Economic Growth'']"
    unfolding snap_def by (simp_all add: snapshots_only_def seed_analyzer_def seed_current_data_def)
  from sub_failures_leave_the_record [of "holt_fit 0.5 0.5" snapshots_only "''France''" snap] s
  obtain r where r: "fst (analyze_country (holt_fit 0.5 0.5) snapshots_only ''France'') = Some r"
    "country r = ''France''"
    "market_score r = (case Market_Score snap of None \<Rightarrow> 0 | Some m \<Rightarrow> m)"
    "status r = status_of (market_score r)"
    "current_metrics r =
             [(''Population'', Formatted [] 1 (Population snap) '' Million''),
              (''GDP'', Formatted ''$'' 2 (GDP snap) '' Trillion USD''),
              (''Consumer_Spending'', Formatted ''$'' 2 (Consumer_Spending snap) '' Trillion USD''),
              (''Economic_Growth'', Formatted [] 1 (Economic_Growth snap) ''%'')]"
    "strengths r = Strengths snap" "weaknesses r = Weaknesses snap"
    "forecasts r = fst (forecast_metrics (holt_fit 0.5 0.5) snapshots_only ''France'' 5)"
    "risk_analysis r = fst (calculate_risk_score snapshots_only ''France'')"
    by blast
  have m: "market_score r = 84" using r(3) v(1) by simp
  have st: "status r = ''Very Suitable''" using r(4) m by (simp add: status_of_def)
  show ?thesis
    apply (rule exI [of _ snap])
    apply (rule exI [of _ r])
    using s f k r(1,2) m st r(5-9) v by simp
qed

text \<open>
  Claim C7 says that a fit failure on one metric leaves the forecasts of the other
  three. It does not: with Japan's growth series cut down to one observation the fit
  fails on that series alone, the three other series can be forecast, and the
  forecaster returns None for the country. So it does with Japan's GDP series empty.
\<close>

theorem one_failure_aborts_all_counterexample:
  "fst (forecast_metrics (holt_fit 0.5 0.5) short_growth_analyzer ''Japan'' 5) = None \<and>
   \<not> isl (forecast_metric (holt_fit 0.5 0.5)
            [5.16, 4.85, 4.39, 4.92, 4.87, 4.95, 5.08, 4.97, 4.94, 4.23] 5) \<and>
   \<not> isl (forecast_metric (holt_fit 0.5 0.5)
            [127.3, 127.1, 126.9, 126.7, 126.5, 126.3, 126.1, 125.8, 125.5, 125.2] 5) \<and>
   \<not> isl (forecast_metric (holt_fit 0.5 0.5)
            [2.98, 2.89, 2.82, 2.85, 2.88, 2.91, 2.94, 2.75, 2.82, 2.88] 5) \<and>
   isl (forecast_metric (holt_fit 0.5 0.5) [1.0] 5) \<and>
   fst (forecast_metrics (holt_fit 0.5 0.5) empty_gdp_analyzer ''Japan'' 5) = None"
  by (simp add: run_forecast metrics_to_forecast_def short_growth_analyzer_def
      empty_gdp_analyzer_def)

text \<open>
  Claim C7, as the code has it. The forecast of a country is all or nothing: a
  result holds a forecast for each of the four metrics, in the order of
  \<open>metrics_to_forecast\<close>, each made from the metric's series; and when the loop body
  raises for any one of the four metrics the forecaster returns None.
\<close>

theorem forecast_is_all_or_nothing:
  "(fst (forecast_metrics fit a c n) = Some fs \<longrightarrow>
      map fst fs = metrics_to_forecast \<and>
      (\<forall>m \<in> set metrics_to_forecast.
         \<exists>series hv r. map_of (historical_data a) c = Some series \<and>
           map_of series m = Some hv \<and> forecast_metric fit hv n = Inr r \<and>
           map_of fs m = Some r)) \<and>
   (map_of (historical_data a) c = Some series \<and> m \<in> set metrics_to_forecast \<and>
    map_of series m = Some hv \<and> isl (forecast_metric fit hv n) \<longrightarrow>
      fst (forecast_metrics fit a c n) = None)"
proof (intro conjI impI)
  assume some: "fst (forecast_metrics fit a c n) = Some fs"
  from forecast_metrics_Some [OF some] obtain series' where
    s: "map_of (historical_data a) c = Some series'"
    and l: "forecast_loop fit series' n metrics_to_forecast [] = Inr fs"
    by blast
  have "distinct metrics_to_forecast" by (simp add: metrics_to_forecast_def)
  with forecast_loop_keys [OF l]
  show "map fst fs = metrics_to_forecast" by simp
  from forecast_loop_Inr [OF l] s
  show "\<forall>m \<in> set metrics_to_forecast.
         \<exists>series hv r. map_of (historical_data a) c = Some series \<and>
           map_of series m = Some hv \<and> forecast_metric fit hv n = Inr r \<and>
           map_of fs m = Some r"
    by blast
next
  assume h: "map_of (historical_data a) c = Some series \<and> m \<in> set metrics_to_forecast \<and>
    map_of series m = Some hv \<and> isl (forecast_metric fit hv n)"
  then have "isl (forecast_loop fit series n metrics_to_forecast [])"
    using forecast_loop_aborts by blast
  with h show "fst (forecast_metrics fit a c n) = None"
    by (simp add: forecast_metrics_aborts)
qed

text \<open>
  C7 (amended) at Japan on the data set, where all four metrics are forecast, and at
  Japan with the growth series cut down to one observation.
\<close>

theorem forecast_is_all_or_nothing_witness:
  "(\<exists>fs. fst (forecast_metrics (holt_fit 0.5 0.5) seed_analyzer ''Japan'' 5) = Some fs \<and>
        map fst fs = [''GDP'', ''Population'', ''Consumer_Spending'', ''Economic_Growth'']) \<and>
   (\<exists>series. map_of (historical_data short_growth_analyzer) ''Japan'' = Some series \<and>
        ''Economic_Growth'' \<in> set metrics_to_forecast \<and>
        map_of series ''Economic_Growth'' = Some [1.0] \<and>
        isl (forecast_metric (holt_fit 0.5 0.5) [1.0] 5) \<and>
        fst (forecast_metrics (holt_fit 0.5 0.5) short_growth_analyzer ''Japan'' 5) = None)"
proof (rule conjI)
  define fs where "fs = the (fst (forecast_metrics (holt_fit 0.5 0.5) seed_analyzer ''Japan'' 5))"
  have fs: "fst (forecast_metrics (holt_fit 0.5 0.5) seed_analyzer ''Japan'' 5) = Some fs"
    unfolding fs_def seed_japan_forecasts by simp
  with forecast_is_all_or_nothing [of "holt_fit 0.5 0.5" seed_analyzer "''Japan''" 5 fs]
  have "map fst fs = metrics_to_forecast" by blast
  with fs show "\<exists>fs. fst (forecast_metrics (holt_fit 0.5 0.5) seed_analyzer ''Japan'' 5) = Some fs \<and>
        map fst fs = [''GDP'', ''Population'', ''Consumer_Spending'', ''Economic_Growth'']"
    by (simp add: metrics_to_forecast_def)
next
  define series where "series = the (map_of (historical_data short_growth_analyzer) ''Japan'')"
  have s: "map_of (historical_data short_growth_analyzer) ''Japan'' = Some series"
    unfolding series_def by (simp add: short_growth_analyzer_def)
  have m: "''Economic_Growth'' \<in> set metrics_to_forecast"
    by (simp add: metrics_to_forecast_def)
  have hv: "map_of series ''Economic_Growth'' = Some [1.0]"
    unfolding series_def by (simp add: short_growth_analyzer_def)
  have f: "isl (forecast_metric (holt_fit 0.5 0.5) [1.0] 5)"
    by (simp add: forecast_metric_fit_fails holt_fit_short)
  from forecast_is_all_or_nothing
         [of "holt_fit 0.5 0.5" short_growth_analyzer "''Japan''" 5 _ series "''Economic_Growth''" "[1.0]"]
       s m hv f
  have "fst (forecast_metrics (holt_fit 0.5 0.5) short_growth_analyzer ''Japan'' 5) = None"
    by blast
  with s m hv f
  show "\<exists>series. map_of (historical_data short_growth_analyzer) ''Japan'' = Some series \<and>
        ''Economic_Growth'' \<in> set metrics_to_forecast \<and>
        map_of series ''Economic_Growth'' = Some [1.0] \<and>
        isl (forecast_metric (holt_fit 0.5 0.5) [1.0] 5) \<and>
        fst (forecast_metrics (holt_fit 0.5 0.5) short_growth_analyzer ''Japan'' 5) = None"
    by blast
qed

text \<open>
  Claim C8 says that a series of fewer than two points gives a fit failure for that
  metric. The code has no such outcome: with Japan's GDP series cut down to one
  observation the forecaster returns None for the country, the value it returns for
  the unknown country "Germany", and the record it logs names the country, not the
  metric. So it does with Japan's GDP series empty.
\<close>

theorem short_series_counterexample:
  "map_of (historical_data short_gdp_analyzer) ''Germany'' = None \<and>
   map_of (historical_data short_gdp_analyzer) ''Japan'' =
     Some [(''GDP'', [4.23]),
           (''Population'', [127.3, 127.1, 126.9, 126.7, 126.5, 126.3, 126.1, 125.8, 125.5, 125.2]),
           (''Consumer_Spending'', [2.98, 2.89, 2.82, 2.85, 2.88, 2.91, 2.94, 2.75, 2.82, 2.88]),
           (''Economic_Growth'', [1.6, 0.4, 1.2, 0.5, 2.2, 0.3, 0.7, - 4.5, 1.6, 1.0])] \<and>
   fst (forecast_metrics (holt_fit 0.5 0.5) short_gdp_analyzer ''Japan'' 5) = None \<and>
   fst (forecast_metrics (holt_fit 0.5 0.5) short_gdp_analyzer ''Germany'' 5) = None \<and>
   emitted (snd (forecast_metrics (holt_fit 0.5 0.5) short_gdp_analyzer ''Japan'' 5)) =
     [ForecastError ''Japan'' (LibraryError ''series too short to fit a trend'')] \<and>
   fst (forecast_metrics (holt_fit 0.5 0.5) empty_gdp_analyzer ''Japan'' 5) = None \<and>
   fst (forecast_metrics (holt_fit 0.5 0.5) empty_gdp_analyzer ''Germany'' 5) = None"
  by (simp add: run_forecast metrics_to_forecast_def short_gdp_analyzer_def
      empty_gdp_analyzer_def seed_analyzer_def logger_error_def)

text \<open>
  Claim C8, as the code has it. The code does not look at the length of a series.
  When one of the four metrics of a country has a series of fewer than two points,
  and the fit raises on it if it has one point, the forecaster returns None for the
  whole country and logs one forecasting error; an empty series gives this outcome
  whatever the fit does, since reading its last value raises.
\<close>

theorem short_series_returns_none:
  assumes "map_of (historical_data a) c = Some series"
    and "m \<in> set metrics_to_forecast"
    and "map_of series m = Some hv"
    and "length hv < 2"
    and "hv \<noteq> [] \<longrightarrow> isl (fit hv n)"
  shows "\<exists>e. forecast_metrics fit a c n = (None, logger_error (ForecastError c e) a)"
proof -
  have "isl (forecast_metric fit hv n)"
  proof (cases "hv = []")
    case True
    then show ?thesis by (simp add: forecast_metric_empty)
  next
    case False
    with assms(5) show ?thesis by (simp add: forecast_metric_fit_fails)
  qed
  with assms(2,3) have "isl (forecast_loop fit series n metrics_to_forecast [])"
    by (rule forecast_loop_aborts)
  with assms(1) have "forecast_metrics fit a c n =
      (None, logger_error
         (ForecastError c (projl (forecast_loop fit series n metrics_to_forecast []))) a)"
    by (rule forecast_metrics_aborts)
  then show ?thesis by (rule exI)
qed

text \<open>
  C8 (amended) at Japan with a one-point GDP series, on which the fit raises, and at
  Japan with an empty GDP series.
\<close>

theorem short_series_returns_none_witness:
  "(\<exists>series e. map_of (historical_data short_gdp_analyzer) ''Japan'' = Some series \<and>
      ''GDP'' \<in> set metrics_to_forecast \<and> map_of series ''GDP'' = Some [4.23] \<and>
      length [4.23 :: rat] < 2 \<and> isl (holt_fit 0.5 0.5 [4.23] 5) \<and>
      forecast_metrics (holt_fit 0.5 0.5) short_gdp_analyzer ''Japan'' 5 =
        (None, logger_error (ForecastError ''Japan'' e) short_gdp_analyzer)) \<and>
   (\<exists>series e. map_of (historical_data empty_gdp_analyzer) ''Japan'' = Some series \<and>
      map_of series ''GDP'' = Some [] \<and>
      forecast_metrics (holt_fit 0.5 0.5) empty_gdp_analyzer ''Japan'' 5 =
        (None, logger_error (ForecastError ''Japan'' e) empty_gdp_analyzer))"
proof (rule conjI)
  define series where "series = the (map_of (historical_data short_gdp_analyzer) ''Japan'')"
  have s: "map_of (historical_data short_gdp_analyzer) ''Japan'' = Some series"
    unfolding series_def by (simp add: short_gdp_analyzer_def)
  have m: "''GDP'' \<in> set metrics_to_forecast"
    by (simp add: metrics_to_forecast_def)
  have hv: "map_of series ''GDP'' = Some [4.23]"
    unfolding series_def by (simp add: short_gdp_analyzer_def)
  have len: "length [4.23 :: rat] < 2" by simp
  have f: "isl (holt_fit 0.5 0.5 [4.23] 5)" by (simp add: holt_fit_short)
  then have f': "[4.23 :: rat] \<noteq> [] \<longrightarrow> isl (holt_fit 0.5 0.5 [4.23] 5)" by simp
  from short_series_returns_none [where fit = "holt_fit 0.5 0.5" and n = 5, OF s m hv len f']
    s m hv len f
  show "\<exists>series e. map_of (historical_data short_gdp_analyzer) ''Japan'' = Some series \<and>
      ''GDP'' \<in> set metrics_to_forecast \<and> map_of series ''GDP'' = Some [4.23] \<and>
      length [4.23 :: rat] < 2 \<and> isl (holt_fit 0.5 0.5 [4.23] 5) \<and>
      forecast_metrics (holt_fit 0.5 0.5) short_gdp_analyzer ''Japan'' 5 =
        (None, logger_error (ForecastError ''Japan'' e) short_gdp_analyzer)"
    by blast
next
  define series where "series = the (map_of (historical_data empty_gdp_analyzer) ''Japan'')"
  have s: "map_of (historical_data empty_gdp_analyzer) ''Japan'' = Some series"
    unfolding series_def by (simp add: empty_gdp_analyzer_def)
  have m: "''GDP'' \<in> set metrics_to_forecast"
    by (simp add: metrics_to_forecast_def)
  have hv: "map_of series ''GDP'' = Some []"
    unfolding series_def by (simp add: empty_gdp_analyzer_def)
  have len: "length ([] :: rat list) < 2" by simp
  have f': "([] :: rat list) \<noteq> [] \<longrightarrow> isl (holt_fit 0.5 0.5 [] 5)" by simp
  from short_series_returns_none [where fit = "holt_fit 0.5 0.5" and n = 5, OF s m hv len f']
    s hv
  show "\<exists>series e. map_of (historical_data empty_gdp_analyzer) ''Japan'' = Some series \<and>
      map_of series ''GDP'' = Some [] \<and>
      forecast_metrics (holt_fit 0.5 0.5) empty_gdp_analyzer ''Japan'' 5 =
        (None, logger_error (ForecastError ''Japan'' e) empty_gdp_analyzer)"
    by blast
qed

text \<open>
  Claim C10. When the snapshot of a country has no market score, the country
  analysis returns a record all the same, with market score 0 and status
  "Moderately Suitable".
\<close>

theorem missing_market_score_defaults_to_zero:
  assumes "map_of (current_data a) c = Some snap" and "Market_Score snap = None"
  shows "\<exists>r. fst (analyze_country fit a c) = Some r \<and> market_score r = 0 \<and>
             status r = ''Moderately Suitable''"
  using assms by (simp add: analyze_country_found status_of_def)

text \<open>
  C10 at a Canada snapshot without market score.
\<close>

theorem missing_market_score_defaults_to_zero_witness:
  "\<exists>snap r. map_of (current_data canada_unscored) ''Canada'' = Some snap \<and>
       Market_Score snap = None \<and>
       fst (analyze_country (holt_fit 0.5 0.5) canada_unscored ''Canada'') = Some r \<and>
       market_score r = 0 \<and> status r = ''Moderately Suitable''"
proof -
  define snap where "snap = the (map_of (current_data canada_unscored) ''Canada'')"
  have s: "map_of (current_data canada_unscored) ''Canada'' = Some snap"
    unfolding snap_def by (simp add: canada_unscored_def)
  have m: "Market_Score snap = None"
    unfolding snap_def by (simp add: canada_unscored_def)
  from missing_market_score_defaults_to_zero [OF s m, of "holt_fit 0.5 0.5"] s m
  show ?thesis by blast
qed

end
